theory Spec2Isabelle
  imports Main "HOL-Library.Sublist"
begin

section \<open>Syntax trees\<close>

text \<open>
  The rule \<open>no-dynamic-class-names\<close> walks the expression bound to a class attribute of a
  Vue template. Nodes carry their source location: start and end, each a line and a column.
\<close>

type_synonym loc = "(nat \<times> nat) \<times> (nat \<times> nat)"

text \<open>The value of an ESTree \<open>Literal\<close>; only \<open>typeof value === "string"\<close> is ever tested.\<close>

datatype literal_value =
    LString string
  | LBoolean bool
  | LNull
  | LNumber int
  | LRegExp string
  | LBigInt int

text \<open>
  Expressions. The shapes the rule distinguishes have a constructor each; every other node
  type (calls, binary expressions, template literals, \<open>Super\<close>, \<open>PrivateIdentifier\<close>, the
  template-only \<open>VForExpression\<close> ...) is an \<open>OtherExpression\<close> with its type tag and its
  child expressions. \<open>MemberExpression\<close> carries object, property and the \<open>computed\<close> flag.
  \<open>Property\<close> carries key, value and the flags \<open>computed\<close>, \<open>method\<close>, \<open>shorthand\<close>.
  An array element is an expression, a spread element or \<open>null\<close> (an elision).
\<close>

datatype expr =
    Literal loc literal_value
  | Identifier loc string
  | MemberExpression loc expr expr bool
  | ObjectExpression loc "property list"
  | ArrayExpression loc "element list"
  | ConditionalExpression loc expr expr expr
  | OtherExpression loc string "expr list"
and spreadElement =
    SpreadElement loc expr
and property =
    Property loc expr expr bool bool bool
  | SpreadProperty spreadElement
and element =
    NullElement
  | SpreadItem spreadElement
  | ExpressionElement expr

fun expr_loc :: "expr \<Rightarrow> loc" where
  "expr_loc (Literal l _) = l"
| "expr_loc (Identifier l _) = l"
| "expr_loc (MemberExpression l _ _ _) = l"
| "expr_loc (ObjectExpression l _) = l"
| "expr_loc (ArrayExpression l _) = l"
| "expr_loc (ConditionalExpression l _ _ _) = l"
| "expr_loc (OtherExpression l _ _) = l"

fun property_loc :: "property \<Rightarrow> loc" where
  "property_loc (Property l _ _ _ _ _) = l"
| "property_loc (SpreadProperty (SpreadElement l _)) = l"

section \<open>Reports\<close>

text \<open>
  \<open>report(node)\<close> calls \<open>context.report({ node, loc: node.loc, messageId: "dynamic" })\<close>.
  The nodes it is called on are expressions and properties. The sink is the list of reports
  in the order of the calls.
\<close>

datatype node = ExpressionNode expr | PropertyNode property

fun node_loc :: "node \<Rightarrow> loc" where
  "node_loc (ExpressionNode e) = expr_loc e"
| "node_loc (PropertyNode p) = property_loc p"

record report =
  node :: node
  loc :: loc
  messageId :: string

definition report :: "node \<Rightarrow> report list" where
  "report n = [\<lparr>node = n, loc = node_loc n, messageId = ''dynamic''\<rparr>]"

section \<open>The classifier\<close>

text \<open>\<open>typeof value === "string"\<close> for the value of a literal.\<close>

fun typeofString :: "literal_value \<Rightarrow> bool" where
  "typeofString (LString _) = True"
| "typeofString _ = False"

text \<open>
  Modelled from the spec: \<open>utils.isStringLiteral\<close> of \<open>lib/utils/vue\<close>, which is not among
  the sources; the spec calls what it accepts "a string-literal key".
\<close>

fun isStringLiteral :: "expr \<Rightarrow> bool" where
  "isStringLiteral (Literal _ v) = typeofString v"
| "isStringLiteral _ = False"

fun isIdentifier :: "expr \<Rightarrow> bool" where
  "isIdentifier (Identifier _ _) = True"
| "isIdentifier _ = False"

text \<open>
  The five mutually recursive functions of \<open>create\<close>. The closure variable
  \<open>allowConditional\<close> is the first argument. \<open>reportDynamicInObject\<close> and
  \<open>reportDynamicInArray\<close> are the loops over \<open>object.properties\<close> and \<open>array.elements\<close>;
  \<open>reportDynamicInConditional\<close> takes the conditional's consequent and alternate.
  \<open>reportDynamicInExpression\<close> takes \<open>None\<close> for \<open>null\<close>. Each returns the reports it
  appends to the sink. For a property key that is an \<open>Identifier\<close>,
  \<open>isString(property.key.name)\<close> holds.
\<close>

fun isAllowedMember :: "expr \<Rightarrow> expr \<Rightarrow> string list \<Rightarrow> bool" where
  "isAllowedMember (Identifier _ oname) (Identifier _ pname) allowedProps =
     (oname \<in> set [''$props'', ''$attrs''] \<and> pname \<in> set allowedProps)"
| "isAllowedMember _ _ allowedProps = False"

function (sequential) reportDynamicInSpread :: "bool \<Rightarrow> spreadElement \<Rightarrow> string list \<Rightarrow> report list"
and reportDynamicInObject :: "bool \<Rightarrow> property list \<Rightarrow> string list \<Rightarrow> report list"
and reportDynamicInArray :: "bool \<Rightarrow> element list \<Rightarrow> string list \<Rightarrow> report list"
and reportDynamicInConditional :: "bool \<Rightarrow> expr \<Rightarrow> expr \<Rightarrow> string list \<Rightarrow> report list"
and reportDynamicInExpression :: "bool \<Rightarrow> expr option \<Rightarrow> string list \<Rightarrow> report list"
where
  "reportDynamicInSpread ac (SpreadElement l (ArrayExpression la elements)) allowedProps =
     reportDynamicInArray ac elements allowedProps"
| "reportDynamicInSpread ac (SpreadElement l (ObjectExpression lo properties)) allowedProps =
     reportDynamicInObject ac properties allowedProps"
| "reportDynamicInSpread ac (SpreadElement l argument) allowedProps =
     report (ExpressionNode argument)"
| "reportDynamicInObject ac [] allowedProps = []"
| "reportDynamicInObject ac (SpreadProperty spread # rest) allowedProps =
     reportDynamicInSpread ac spread allowedProps @ reportDynamicInObject ac rest allowedProps"
| "reportDynamicInObject ac (Property l key val computed method shorthand # rest) allowedProps =
     (if shorthand then []
      else if computed \<or> method then report (PropertyNode (Property l key val computed method shorthand))
      else if isIdentifier key then []
      else if isStringLiteral key then []
      else if isIdentifier val then []
      else reportDynamicInExpression ac (Some val) allowedProps)
     @ reportDynamicInObject ac rest allowedProps"
| "reportDynamicInArray ac [] allowedProps = []"
| "reportDynamicInArray ac (NullElement # rest) allowedProps =
     reportDynamicInArray ac rest allowedProps"
| "reportDynamicInArray ac (SpreadItem spread # rest) allowedProps =
     reportDynamicInSpread ac spread allowedProps @ reportDynamicInArray ac rest allowedProps"
| "reportDynamicInArray ac (ExpressionElement e # rest) allowedProps =
     reportDynamicInExpression ac (Some e) allowedProps @ reportDynamicInArray ac rest allowedProps"
| "reportDynamicInConditional ac consequent alternate allowedProps =
     reportDynamicInExpression ac (Some alternate) allowedProps
     @ reportDynamicInExpression ac (Some consequent) allowedProps"
| "reportDynamicInExpression ac None allowedProps = []"
| "reportDynamicInExpression ac (Some (Literal l v)) allowedProps =
     (if typeofString v then [] else report (ExpressionNode (Literal l v)))"
| "reportDynamicInExpression ac (Some (Identifier l name)) allowedProps =
     (if name \<in> set allowedProps then [] else report (ExpressionNode (Identifier l name)))"
| "reportDynamicInExpression ac (Some (MemberExpression l obj prop computed)) allowedProps =
     (if isAllowedMember obj prop allowedProps then []
      else report (ExpressionNode (MemberExpression l obj prop computed)))"
| "reportDynamicInExpression ac (Some (ObjectExpression l properties)) allowedProps =
     reportDynamicInObject ac properties allowedProps"
| "reportDynamicInExpression ac (Some (ArrayExpression l elements)) allowedProps =
     reportDynamicInArray ac elements allowedProps"
| "reportDynamicInExpression ac (Some (ConditionalExpression l test consequent alternate)) allowedProps =
     (if ac then reportDynamicInConditional ac consequent alternate allowedProps
      else report (ExpressionNode (ConditionalExpression l test consequent alternate)))"
| "reportDynamicInExpression ac (Some (OtherExpression l t children)) allowedProps =
     report (ExpressionNode (OtherExpression l t children))"

  by pat_completeness auto


termination
  by (relation "measure (case_sum
        (case_sum (\<lambda>(ac, spread, allowedProps). 2 * size spread + 1)
                  (\<lambda>(ac, properties, allowedProps). 2 * size_list size properties + 1))
        (case_sum (\<lambda>(ac, elements, allowedProps). 2 * size_list size elements + 1)
          (case_sum (\<lambda>(ac, consequent, alternate, allowedProps). 2 * (size consequent + size alternate) + 3)
                    (\<lambda>(ac, expression, allowedProps). case expression of None \<Rightarrow> 0 | Some e \<Rightarrow> 2 * size e + 2))))")
     simp_all


section \<open>Attributes\<close>

text \<open>
  A template attribute is a plain \<open>VAttribute\<close> (key name, value a \<open>VLiteral\<close> or \<open>null\<close>)
  or a \<open>VDirective\<close> (directive name, argument, value a \<open>VExpressionContainer\<close> or
  \<open>null\<close>). A directive argument is a static \<open>VIdentifier\<close> or a dynamic \<open>VExpression\<close>.
  The expression of a container may be \<open>null\<close>.
\<close>

datatype vvalue =
    VLiteral loc string
  | VExpressionContainer loc "expr option"

datatype vargument =
    VIdentifier string
  | VExpression expr

datatype attribute =
    VAttribute string "vvalue option"
  | VDirective string "vargument option" "vvalue option"

fun attribute_value :: "attribute \<Rightarrow> vvalue option" where
  "attribute_value (VAttribute _ v) = v"
| "attribute_value (VDirective _ _ v) = v"

text \<open>
  In \<open>getName\<close> the result for \<open>bind\<close> is
  \<open>(argument && argument.type === "VIdentifier" && argument.name) || null\<close>:
  an empty name is falsy and gives \<open>null\<close>.
\<close>

fun getName :: "attribute \<Rightarrow> string option" where
  "getName (VAttribute name _) = Some name"
| "getName (VDirective dname argument _) =
     (if dname = ''bind'' then
        (case argument of
           Some (VIdentifier name) \<Rightarrow> if name = [] then None else Some name
         | _ \<Rightarrow> None)
      else None)"

text \<open>
  \<open>isSatisfyList\<close> uses \<open>regexpUtils.isRegExp\<close> and \<open>regexpUtils.toRegExp\<close> of
  \<open>lib/utils/regexp\<close>, which is not among the sources: they are the parameters
  \<open>isRegExp\<close> and \<open>regexpTest\<close>, where \<open>regexpTest reg item\<close> stands for
  \<open>toRegExp(reg).test(item)\<close>.
\<close>

definition isSatisfyList ::
  "(string \<Rightarrow> bool) \<Rightarrow> (string \<Rightarrow> string \<Rightarrow> bool) \<Rightarrow> string list \<Rightarrow> string \<Rightarrow> bool" where
  "isSatisfyList isRegExp regexpTest list item =
     (if item \<in> set list then True
      else list_ex (\<lambda>reg. regexpTest reg item) (filter isRegExp list))"

fun reportDynamic :: "bool \<Rightarrow> attribute \<Rightarrow> string list \<Rightarrow> report list" where
  "reportDynamic ac attribute allowedProps =
     (case attribute_value attribute of
        None \<Rightarrow> []
      | Some (VLiteral _ _) \<Rightarrow> []
      | Some (VExpressionContainer _ None) \<Rightarrow> []
      | Some (VExpressionContainer _ (Some expression)) \<Rightarrow>
          reportDynamicInExpression ac (Some expression) allowedProps)"

section \<open>Configuration and visitors\<close>

text \<open>
  \<open>context.options[0]\<close> is the configuration object; each of its fields may be absent, and
  so may the object itself.
\<close>

record options =
  classAttrNames :: "string list option"
  allowConditional :: "bool option"
  allowProps :: "bool option"

record ruleContext =
  options :: "options list"
  hasDefineTemplateBodyVisitor :: bool

definition options0 :: "ruleContext \<Rightarrow> options option" where
  "options0 context = (case options context of [] \<Rightarrow> None | x # _ \<Rightarrow> Some x)"

text \<open>\<open>context.options[0]?.allowProps || false\<close>, and likewise for \<open>allowConditional\<close>.\<close>

definition allowPropsOf :: "ruleContext \<Rightarrow> bool" where
  "allowPropsOf context =
     (case options0 context of None \<Rightarrow> False
      | Some x \<Rightarrow> (case allowProps x of None \<Rightarrow> False | Some b \<Rightarrow> b))"

definition allowConditionalOf :: "ruleContext \<Rightarrow> bool" where
  "allowConditionalOf context =
     (case options0 context of None \<Rightarrow> False
      | Some x \<Rightarrow> (case allowConditional x of None \<Rightarrow> False | Some b \<Rightarrow> b))"

text \<open>
  The watched names of \<open>create\<close>: a copy of \<open>classAttrNames\<close> (or the empty list), with
  \<open>"class"\<close> pushed when it is not there.
\<close>

definition names :: "ruleContext \<Rightarrow> string list" where
  "names context =
     (let names = (case options0 context of None \<Rightarrow> []
                   | Some x \<Rightarrow> (case classAttrNames x of None \<Rightarrow> [] | Some ns \<Rightarrow> ns))
      in if ''class'' \<in> set names then names else names @ [''class''])"

text \<open>
  A declared component prop, as the visitors of \<open>lib/utils/vue\<close> hand it over; only
  \<open>propName\<close>, a string or \<open>null\<close>, is read.
\<close>

record componentProp =
  propName :: "string option"

text \<open>
  The nodes the rule's visitors are called on: \<open>defineProps\<close> of a script-setup block with
  its props, a Vue options object with the props \<open>utils.getComponentPropsFromOptions\<close> finds
  in it, and a template attribute.
\<close>

datatype event =
    DefinePropsEnter "componentProp list"
  | VueObjectEnter "componentProp list"
  | VAttributeEnter attribute

text \<open>
  A rule listener handles an event in the current state of the shared array \<open>propNames\<close>
  and returns the array and the reports it emitted.
\<close>

type_synonym ruleListener = "event \<Rightarrow> string list \<Rightarrow> string list \<times> report list"

definition emptyListener :: ruleListener where
  "emptyListener ev propNames = (propNames, [])"

text \<open>\<open>props.map((p) => p.propName).filter(isString)\<close>\<close>

definition stringPropNames :: "componentProp list \<Rightarrow> string list" where
  "stringPropNames props = map the (filter (\<lambda>n. n \<noteq> None) (map propName props))"

text \<open>
  Modelled from the spec: \<open>utils.defineScriptSetupVisitor\<close>, \<open>utils.defineVueVisitor\<close> and
  \<open>utils.compositingVisitors\<close> of \<open>lib/utils/vue\<close>, which is not among the sources. The
  first calls \<open>onDefinePropsEnter\<close> with the declared props, the second calls
  \<open>onVueObjectEnter\<close> on an options object, and the third runs the visitors it is given
  in their order on every node. The handlers are those \<open>withProps\<close> passes;
  \<open>utils.getComponentPropsFromOptions\<close>, of the same file, is taken as having produced the
  props a \<open>VueObjectEnter\<close> event carries.
\<close>

definition scriptSetupVisitor :: ruleListener where
  "scriptSetupVisitor ev propNames =
     (case ev of
        DefinePropsEnter props \<Rightarrow> (propNames @ stringPropNames props, [])
      | _ \<Rightarrow> (propNames, []))"

definition vueVisitor :: ruleListener where
  "vueVisitor ev propNames =
     (case ev of
        VueObjectEnter props \<Rightarrow> (propNames @ stringPropNames props, [])
      | _ \<Rightarrow> (propNames, []))"

fun compositingVisitors :: "ruleListener list \<Rightarrow> ruleListener" where
  "compositingVisitors [] ev propNames = (propNames, [])"
| "compositingVisitors (v # vs) ev propNames =
     (let (propNames', rs) = v ev propNames;
          (propNames'', rs') = compositingVisitors vs ev propNames'
      in (propNames'', rs @ rs'))"

definition withProps :: "ruleContext \<Rightarrow> ruleListener \<Rightarrow> ruleListener" where
  "withProps context bodyVisitor =
     (if allowPropsOf context = False then bodyVisitor
      else compositingVisitors [scriptSetupVisitor, vueVisitor, bodyVisitor])"

text \<open>The \<open>VAttribute\<close> handler of the template body visitor.\<close>

definition templateBodyVisitor ::
  "(string \<Rightarrow> bool) \<Rightarrow> (string \<Rightarrow> string \<Rightarrow> bool) \<Rightarrow> ruleContext \<Rightarrow> ruleListener" where
  "templateBodyVisitor isRegExp regexpTest context ev props =
     (case ev of
        VAttributeEnter attribute \<Rightarrow>
          (props,
           (case getName attribute of
              None \<Rightarrow> []
            | Some name \<Rightarrow>
                if \<not> isSatisfyList isRegExp regexpTest (names context) name then []
                else reportDynamic (allowConditionalOf context) attribute props))
      | _ \<Rightarrow> (props, []))"

definition create ::
  "(string \<Rightarrow> bool) \<Rightarrow> (string \<Rightarrow> string \<Rightarrow> bool) \<Rightarrow> ruleContext \<Rightarrow> ruleListener" where
  "create isRegExp regexpTest context =
     (if \<not> hasDefineTemplateBodyVisitor context then emptyListener
      else withProps context (templateBodyVisitor isRegExp regexpTest context))"

text \<open>
  Running a listener over the nodes of a file. \<open>propNames\<close> starts as \<open>["class"]\<close>, as
  \<open>withProps\<close> initialises it.
\<close>

fun run_from :: "ruleListener \<Rightarrow> event list \<Rightarrow> string list \<Rightarrow> string list \<times> report list" where
  "run_from listener [] propNames = (propNames, [])"
| "run_from listener (ev # evs) propNames =
     (let (propNames', rs) = listener ev propNames;
          (propNames'', rs') = run_from listener evs propNames'
      in (propNames'', rs @ rs'))"

definition run :: "ruleListener \<Rightarrow> event list \<Rightarrow> string list \<times> report list" where
  "run listener evs = run_from listener evs [''class'']"

section \<open>Notions the properties are stated with\<close>

text \<open>
  A property with a static key: not a spread, neither computed nor a method, and shorthand
  or keyed by a plain identifier or by a string literal.
\<close>

fun staticKeyProperty :: "property \<Rightarrow> bool" where
  "staticKeyProperty (Property l key val computed method shorthand) =
     (\<not> computed \<and> \<not> method \<and> (shorthand \<or> isIdentifier key \<or> isStringLiteral key))"
| "staticKeyProperty (SpreadProperty spread) = False"

text \<open>
  The nodes of a tree, depth first, the children of every node from left to right as they
  stand in the source text: in a conditional the test, the consequent, the alternate.
\<close>

primrec positionalOrder :: "expr \<Rightarrow> node list"
  and positionalOrderSpread :: "spreadElement \<Rightarrow> node list"
  and positionalOrderProperty :: "property \<Rightarrow> node list"
  and positionalOrderElement :: "element \<Rightarrow> node list"
where
  "positionalOrder (Literal l v) = [ExpressionNode (Literal l v)]"
| "positionalOrder (Identifier l name) = [ExpressionNode (Identifier l name)]"
| "positionalOrder (MemberExpression l obj prop computed) =
     ExpressionNode (MemberExpression l obj prop computed)
       # positionalOrder obj @ positionalOrder prop"
| "positionalOrder (ObjectExpression l properties) =
     ExpressionNode (ObjectExpression l properties)
       # concat (map positionalOrderProperty properties)"
| "positionalOrder (ArrayExpression l elements) =
     ExpressionNode (ArrayExpression l elements)
       # concat (map positionalOrderElement elements)"
| "positionalOrder (ConditionalExpression l test consequent alternate) =
     ExpressionNode (ConditionalExpression l test consequent alternate)
       # positionalOrder test @ positionalOrder consequent @ positionalOrder alternate"
| "positionalOrder (OtherExpression l t children) =
     ExpressionNode (OtherExpression l t children) # concat (map positionalOrder children)"
| "positionalOrderSpread (SpreadElement l argument) = positionalOrder argument"
| "positionalOrderProperty (Property l key val computed method shorthand) =
     PropertyNode (Property l key val computed method shorthand)
       # positionalOrder key @ positionalOrder val"
| "positionalOrderProperty (SpreadProperty spread) = positionalOrderSpread spread"
| "positionalOrderElement NullElement = []"
| "positionalOrderElement (SpreadItem spread) = positionalOrderSpread spread"
| "positionalOrderElement (ExpressionElement e) = positionalOrder e"

text \<open>
  The same, in the order in which the functions of \<open>create\<close> go through a tree: as above,
  but \<open>reportDynamicInConditional\<close> takes the alternate before the consequent.
\<close>

primrec recursionOrder :: "expr \<Rightarrow> node list"
  and recursionOrderSpread :: "spreadElement \<Rightarrow> node list"
  and recursionOrderProperty :: "property \<Rightarrow> node list"
  and recursionOrderElement :: "element \<Rightarrow> node list"
where
  "recursionOrder (Literal l v) = [ExpressionNode (Literal l v)]"
| "recursionOrder (Identifier l name) = [ExpressionNode (Identifier l name)]"
| "recursionOrder (MemberExpression l obj prop computed) =
     ExpressionNode (MemberExpression l obj prop computed)
       # recursionOrder obj @ recursionOrder prop"
| "recursionOrder (ObjectExpression l properties) =
     ExpressionNode (ObjectExpression l properties)
       # concat (map recursionOrderProperty properties)"
| "recursionOrder (ArrayExpression l elements) =
     ExpressionNode (ArrayExpression l elements)
       # concat (map recursionOrderElement elements)"
| "recursionOrder (ConditionalExpression l test consequent alternate) =
     ExpressionNode (ConditionalExpression l test consequent alternate)
       # recursionOrder test @ recursionOrder alternate @ recursionOrder consequent"
| "recursionOrder (OtherExpression l t children) =
     ExpressionNode (OtherExpression l t children) # concat (map recursionOrder children)"
| "recursionOrderSpread (SpreadElement l argument) = recursionOrder argument"
| "recursionOrderProperty (Property l key val computed method shorthand) =
     PropertyNode (Property l key val computed method shorthand)
       # recursionOrder key @ recursionOrder val"
| "recursionOrderProperty (SpreadProperty spread) = recursionOrderSpread spread"
| "recursionOrderElement NullElement = []"
| "recursionOrderElement (SpreadItem spread) = recursionOrderSpread spread"
| "recursionOrderElement (ExpressionElement e) = recursionOrder e"

text \<open>
  The expressions the classification recursion reaches, as the rules for values say it:
  those the recursion classifies, and the arguments of spreads. In an array every element
  is reached; in an object, the value of a property whose key is neither computed nor a
  plain identifier nor a string literal; in a conditional, when conditionals are allowed,
  both branches, the alternate first. The allowed names play no part in it. The test of a
  conditional is never reached, nor the value of a property with a static key.

  The first argument tells the two readings of the object rule apart. With \<open>False\<close> the
  value of every property under such a key is reached. With \<open>True\<close> a value that is itself
  an \<open>Identifier\<close> is left out, as the loop of \<open>reportDynamicInObject\<close> leaves it with
  \<open>continue\<close>.
\<close>

function (sequential) reachedInSpread :: "bool \<Rightarrow> bool \<Rightarrow> spreadElement \<Rightarrow> expr list"
and reachedInObject :: "bool \<Rightarrow> bool \<Rightarrow> property list \<Rightarrow> expr list"
and reachedInArray :: "bool \<Rightarrow> bool \<Rightarrow> element list \<Rightarrow> expr list"
and reachedInConditional :: "bool \<Rightarrow> bool \<Rightarrow> expr \<Rightarrow> expr \<Rightarrow> expr list"
and reachedInExpression :: "bool \<Rightarrow> bool \<Rightarrow> expr \<Rightarrow> expr list"
where
  "reachedInSpread skip ac (SpreadElement l (ArrayExpression la elements)) =
     reachedInArray skip ac elements"
| "reachedInSpread skip ac (SpreadElement l (ObjectExpression lo properties)) =
     reachedInObject skip ac properties"
| "reachedInSpread skip ac (SpreadElement l argument) = [argument]"
| "reachedInObject skip ac [] = []"
| "reachedInObject skip ac (SpreadProperty spread # rest) =
     reachedInSpread skip ac spread @ reachedInObject skip ac rest"
| "reachedInObject skip ac (Property l key val computed method shorthand # rest) =
     (if shorthand then []
      else if computed \<or> method then []
      else if isIdentifier key then []
      else if isStringLiteral key then []
      else if skip \<and> isIdentifier val then []
      else reachedInExpression skip ac val)
     @ reachedInObject skip ac rest"
| "reachedInArray skip ac [] = []"
| "reachedInArray skip ac (NullElement # rest) = reachedInArray skip ac rest"
| "reachedInArray skip ac (SpreadItem spread # rest) =
     reachedInSpread skip ac spread @ reachedInArray skip ac rest"
| "reachedInArray skip ac (ExpressionElement e # rest) =
     reachedInExpression skip ac e @ reachedInArray skip ac rest"
| "reachedInConditional skip ac consequent alternate =
     reachedInExpression skip ac alternate @ reachedInExpression skip ac consequent"
| "reachedInExpression skip ac (ObjectExpression l properties) =
     ObjectExpression l properties # reachedInObject skip ac properties"
| "reachedInExpression skip ac (ArrayExpression l elements) =
     ArrayExpression l elements # reachedInArray skip ac elements"
| "reachedInExpression skip ac (ConditionalExpression l test consequent alternate) =
     ConditionalExpression l test consequent alternate
       # (if ac then reachedInConditional skip ac consequent alternate else [])"
| "reachedInExpression skip ac expression = [expression]"
  by pat_completeness auto

termination
  by (relation "measure (case_sum
        (case_sum (\<lambda>(skip, ac, spread). 2 * size spread + 1)
                  (\<lambda>(skip, ac, properties). 2 * size_list size properties + 1))
        (case_sum (\<lambda>(skip, ac, elements). 2 * size_list size elements + 1)
          (case_sum (\<lambda>(skip, ac, consequent, alternate). 2 * (size consequent + size alternate) + 3)
                    (\<lambda>(skip, ac, expression). 2 * size expression + 2))))")
     simp_all

text \<open>An identifier whose name is not among the allowed names.\<close>

fun unknownIdentifier :: "string list \<Rightarrow> expr \<Rightarrow> bool" where
  "unknownIdentifier allowedProps (Identifier l name) = (name \<notin> set allowedProps)"
| "unknownIdentifier allowedProps _ = False"

fun unknownIdentifierNode :: "string list \<Rightarrow> node \<Rightarrow> bool" where
  "unknownIdentifierNode allowedProps (ExpressionNode e) = unknownIdentifier allowedProps e"
| "unknownIdentifierNode allowedProps (PropertyNode p) = False"

text \<open>The props a component event declares under a string name.\<close>

fun declaredPropNames :: "event \<Rightarrow> string set" where
  "declaredPropNames (DefinePropsEnter props) = {n. \<exists>p \<in> set props. propName p = Some n}"
| "declaredPropNames (VueObjectEnter props) = {n. \<exists>p \<in> set props. propName p = Some n}"
| "declaredPropNames (VAttributeEnter attribute) = {}"

section \<open>Conditionals and member accesses\<close>

text \<open>
  C2 fails as stated: for \<open>cond ? "active" : ""\<close> with conditionals allowed and the allowed
  names \<open>class\<close> and \<open>active\<close>, the reports are not the single report at \<open>cond\<close>.
\<close>

theorem C2_counterexample:
  "reportDynamicInExpression True
     (Some (ConditionalExpression ((1, 0), (1, 20))
              (Identifier ((1, 0), (1, 4)) ''cond'')
              (Literal ((1, 7), (1, 15)) (LString ''active''))
              (Literal ((1, 18), (1, 20)) (LString ''''))))
     [''class'', ''active'']
   \<noteq> [\<lparr>node = ExpressionNode (Identifier ((1, 0), (1, 4)) ''cond''),
        loc = ((1, 0), (1, 4)), messageId = ''dynamic''\<rparr>]"
  by simp

text \<open>
  C2, amended: with conditionals allowed and the allowed names \<open>class\<close> and \<open>active\<close>, the
  expression \<open>cond ? "active" : ""\<close> produces no report at all: the test of a conditional
  is not inspected, whatever it is.
\<close>

theorem C2_conditional_test_not_inspected:
  "reportDynamicInExpression True
     (Some (ConditionalExpression l test (Literal lc (LString ''active'')) (Literal la (LString ''''))))
     [''class'', ''active''] = []"
  by simp

text \<open>
  C5: with conditionals not allowed, a conditional expression bound as the class value gives
  exactly one report, at the whole conditional; nothing is reported for its test, its
  consequent or its alternate.
\<close>

theorem C5_conditional_disallowed:
  "reportDynamicInExpression False (Some (ConditionalExpression l test consequent alternate)) allowedProps
     = [\<lparr>node = ExpressionNode (ConditionalExpression l test consequent alternate),
         loc = l, messageId = ''dynamic''\<rparr>]
   \<and> reportDynamic False
        (VDirective ''bind'' (Some (VIdentifier ''class''))
           (Some (VExpressionContainer lv (Some (ConditionalExpression l test consequent alternate)))))
        allowedProps
     = [\<lparr>node = ExpressionNode (ConditionalExpression l test consequent alternate),
         loc = l, messageId = ''dynamic''\<rparr>]"
  by (simp add: report_def)

lemma isAllowedMember_iff:
  "isAllowedMember obj prop allowedProps \<longleftrightarrow>
     (\<exists>lo oname lp pname. obj = Identifier lo oname \<and> (oname = ''$props'' \<or> oname = ''$attrs'')
        \<and> prop = Identifier lp pname \<and> pname \<in> set allowedProps)"
  by (cases obj; cases "prop") auto

text \<open>
  C6: a member access is accepted exactly when its object is the identifier \<open>$props\<close> or
  \<open>$attrs\<close> and its property is an identifier with an allowed name; any other member access
  gives one report, at the member expression itself, and nothing for its parts.
\<close>

theorem C6_member_access:
  "(reportDynamicInExpression ac (Some (MemberExpression l obj prop computed)) allowedProps = []
      \<longleftrightarrow> (\<exists>lo oname lp pname. obj = Identifier lo oname \<and> (oname = ''$props'' \<or> oname = ''$attrs'')
             \<and> prop = Identifier lp pname \<and> pname \<in> set allowedProps))
   \<and> (reportDynamicInExpression ac (Some (MemberExpression l obj prop computed)) allowedProps \<noteq> []
      \<longrightarrow> reportDynamicInExpression ac (Some (MemberExpression l obj prop computed)) allowedProps
          = [\<lparr>node = ExpressionNode (MemberExpression l obj prop computed),
              loc = l, messageId = ''dynamic''\<rparr>])"
  by (simp add: report_def isAllowedMember_iff)

theorem C6_member_access_witness:
  "reportDynamicInExpression True
     (Some (MemberExpression ((1, 0), (1, 13))
        (Identifier ((1, 0), (1, 6)) ''$props'') (Identifier ((1, 7), (1, 13)) ''active'') False))
     [''class'', ''active''] = []
   \<and> reportDynamicInExpression True
     (Some (MemberExpression ((1, 0), (1, 10))
        (Identifier ((1, 0), (1, 5)) ''state'') (Identifier ((1, 6), (1, 10)) ''open'') False))
     [''class'', ''active'']
     = [\<lparr>node = ExpressionNode (MemberExpression ((1, 0), (1, 10))
          (Identifier ((1, 0), (1, 5)) ''state'') (Identifier ((1, 6), (1, 10)) ''open'') False),
         loc = ((1, 0), (1, 10)), messageId = ''dynamic''\<rparr>]"
  using C6_member_access [of True "((1, 0), (1, 13))" "Identifier ((1, 0), (1, 6)) ''$props''"
      "Identifier ((1, 7), (1, 13)) ''active''" False "[''class'', ''active'']"]
    C6_member_access [of True "((1, 0), (1, 10))" "Identifier ((1, 0), (1, 5)) ''state''"
      "Identifier ((1, 6), (1, 10)) ''open''" False "[''class'', ''active'']"]
  by simp

section \<open>Attribute names and the allowed names\<close>

lemma create_attribute_without_name:
  "getName attribute = None \<Longrightarrow>
     snd (create isRegExp regexpTest context (VAttributeEnter attribute) props) = []"
  by (simp add: create_def emptyListener_def withProps_def templateBodyVisitor_def
      scriptSetupVisitor_def vueVisitor_def)

text \<open>
  C10: the name of a directive is non-null only for \<open>bind\<close> with a static identifier
  argument, and is then that argument; every other directive, and a \<open>bind\<close> whose argument is
  missing or not an identifier, has the name \<open>null\<close>, and the rule reports nothing for it,
  whatever its value.
\<close>

theorem C10_directive_name:
  "(getName (VDirective dname argument v) = Some name
      \<longrightarrow> dname = ''bind'' \<and> argument = Some (VIdentifier name))
   \<and> (\<not> (dname = ''bind'' \<and> (\<exists>n. argument = Some (VIdentifier n)))
      \<longrightarrow> getName (VDirective dname argument v) = None
          \<and> snd (create isRegExp regexpTest context (VAttributeEnter (VDirective dname argument v)) props) = [])"
proof -
  have a: "getName (VDirective dname argument v) = Some name
      \<longrightarrow> dname = ''bind'' \<and> argument = Some (VIdentifier name)"
    by (auto split: if_splits option.splits vargument.splits)
  have b: "\<not> (dname = ''bind'' \<and> (\<exists>n. argument = Some (VIdentifier n)))
      \<longrightarrow> getName (VDirective dname argument v) = None"
    by (auto split: if_splits option.splits vargument.splits)
  show ?thesis
    using a b create_attribute_without_name by blast
qed

theorem C10_directive_name_witness:
  "getName (VDirective ''bind'' (Some (VIdentifier ''class'')) None) = Some ''class''
   \<and> getName (VDirective ''if'' None
        (Some (VExpressionContainer ((1, 5), (1, 8)) (Some (Identifier ((1, 5), (1, 8)) ''foo''))))) = None
   \<and> snd (create (\<lambda>s. False) (\<lambda>r s. False)
        \<lparr>options = [], hasDefineTemplateBodyVisitor = True\<rparr>
        (VAttributeEnter (VDirective ''if'' None
           (Some (VExpressionContainer ((1, 5), (1, 8)) (Some (Identifier ((1, 5), (1, 8)) ''foo''))))))
        [''class'']) = []"
  using C10_directive_name [of "''bind''" "Some (VIdentifier ''class'')" None "''class''"]
    C10_directive_name [of "''if''" None
      "Some (VExpressionContainer ((1, 5), (1, 8)) (Some (Identifier ((1, 5), (1, 8)) ''foo'')))"
      "''x''" "\<lambda>s. False" "\<lambda>r s. False" "\<lparr>options = [], hasDefineTemplateBodyVisitor = True\<rparr>"
      "[''class'']"]
  by simp

lemma create_step_propNames:
  "\<exists>more. fst (create isRegExp regexpTest context ev (''class'' # names0)) = ''class'' # names0 @ more"
  by (cases ev)
    (simp_all add: create_def emptyListener_def withProps_def templateBodyVisitor_def
      scriptSetupVisitor_def vueVisitor_def)

lemma run_from_create_head:
  "\<exists>rest. fst (run_from (create isRegExp regexpTest context) evs (''class'' # names0)) = ''class'' # rest"
proof (induction evs arbitrary: names0)
  case Nil
  show ?case by simp
next
  case (Cons ev evs)
  obtain more where m: "fst (create isRegExp regexpTest context ev (''class'' # names0)) = ''class'' # names0 @ more"
    using create_step_propNames by blast
  obtain rest where r: "fst (run_from (create isRegExp regexpTest context) evs (''class'' # names0 @ more)) = ''class'' # rest"
    using Cons.IH by blast
  show ?case
    using m r by (auto simp: split_beta Let_def)
qed

text \<open>
  C7: for every configuration \<open>"class"\<close> is among the watched names, and at every moment of a
  run, so whenever an attribute is classified, \<open>"class"\<close> is the first of the allowed names;
  this holds in particular when \<open>allowProps\<close> is enabled and props have been collected.
\<close>

theorem C7_class_always_present:
  "''class'' \<in> set (names context)
   \<and> (\<exists>rest. fst (run (create isRegExp regexpTest context) evs) = ''class'' # rest)"
proof -
  have "''class'' \<in> set (names context)"
    by (simp add: names_def Let_def)
  then show ?thesis
    using run_from_create_head [of isRegExp regexpTest "context" evs "[]"]
    by (simp add: run_def)
qed

section \<open>The prop collector and static keys\<close>

lemma templateBodyVisitor_propNames:
  "fst (templateBodyVisitor isRegExp regexpTest context ev propNames) = propNames"
  by (cases ev) (simp_all add: templateBodyVisitor_def)

lemma run_from_templateBodyVisitor:
  "fst (run_from (templateBodyVisitor isRegExp regexpTest context) evs propNames) = propNames"
proof (induction evs arbitrary: propNames)
  case Nil
  show ?case by simp
next
  case (Cons ev evs)
  then show ?case
    using templateBodyVisitor_propNames [of isRegExp regexpTest "context" ev propNames]
    by (simp add: split_beta Let_def)
qed

lemma set_stringPropNames:
  "set (stringPropNames props) = {n. \<exists>p \<in> set props. propName p = Some n}"
  by (induction props) (auto simp: stringPropNames_def)

lemma withProps_step:
  "allowPropsOf context \<Longrightarrow>
   set (fst (withProps context (templateBodyVisitor isRegExp regexpTest context) ev propNames))
     = set propNames \<union> declaredPropNames ev"
  by (cases ev)
    (simp_all add: withProps_def templateBodyVisitor_def scriptSetupVisitor_def vueVisitor_def
      set_stringPropNames)

lemma run_from_withProps:
  "allowPropsOf context \<Longrightarrow>
   set (fst (run_from (withProps context (templateBodyVisitor isRegExp regexpTest context)) evs propNames))
     = set propNames \<union> (\<Union>ev \<in> set evs. declaredPropNames ev)"
proof (induction evs arbitrary: propNames)
  case Nil
  show ?case by simp
next
  case (Cons ev evs)
  show ?case
    using Cons.IH [OF Cons.prems] withProps_step [OF Cons.prems, of isRegExp regexpTest ev propNames]
    by (simp add: split_beta Let_def Un_assoc)
qed

lemma withProps_attribute_step:
  "fst (withProps context (templateBodyVisitor isRegExp regexpTest context) (VAttributeEnter a) propNames)
     = propNames"
  by (simp add: withProps_def templateBodyVisitor_def scriptSetupVisitor_def vueVisitor_def)

lemma run_from_withProps_attributes:
  "\<forall>ev \<in> set evs. \<exists>a. ev = VAttributeEnter a \<Longrightarrow>
   fst (run_from (withProps context (templateBodyVisitor isRegExp regexpTest context)) evs propNames)
     = propNames"
proof (induction evs arbitrary: propNames)
  case Nil
  show ?case by simp
next
  case (Cons ev evs)
  then obtain a where "ev = VAttributeEnter a" by auto
  then show ?case
    using Cons withProps_attribute_step [of "context" isRegExp regexpTest a propNames]
    by (simp add: split_beta Let_def)
qed

text \<open>
  C8: with \<open>allowProps\<close> off, \<open>withProps\<close> returns the body visitor alone, with no
  component visitor, and the allowed names stay \<open>["class"]\<close> whatever the component
  declares. With \<open>allowProps\<close> on, the allowed names are \<open>"class"\<close> and the prop names that
  the script-setup and options-object visitors hand over, those that are not strings left
  out. When neither visitor is called, the allowed names are just \<open>["class"]\<close>.
\<close>

theorem C8_prop_collector:
  "(\<not> allowPropsOf context \<longrightarrow>
      withProps context bodyVisitor = bodyVisitor
      \<and> fst (run (withProps context (templateBodyVisitor isRegExp regexpTest context)) evs) = [''class''])
   \<and> (allowPropsOf context \<longrightarrow>
      set (fst (run (withProps context (templateBodyVisitor isRegExp regexpTest context)) evs))
        = {''class''} \<union> (\<Union>ev \<in> set evs. declaredPropNames ev))
   \<and> ((\<forall>ev \<in> set evs. \<exists>a. ev = VAttributeEnter a) \<longrightarrow>
      fst (run (withProps context (templateBodyVisitor isRegExp regexpTest context)) evs) = [''class''])"
proof (intro conjI impI)
  assume off: "\<not> allowPropsOf context"
  show "withProps context bodyVisitor = bodyVisitor"
    using off by (simp add: withProps_def)
  show "fst (run (withProps context (templateBodyVisitor isRegExp regexpTest context)) evs) = [''class'']"
    using off by (simp add: withProps_def run_def run_from_templateBodyVisitor)
next
  assume "allowPropsOf context"
  then show "set (fst (run (withProps context (templateBodyVisitor isRegExp regexpTest context)) evs))
        = {''class''} \<union> (\<Union>ev \<in> set evs. declaredPropNames ev)"
    using run_from_withProps [of "context" isRegExp regexpTest evs "[''class'']"]
    by (simp add: run_def)
next
  assume "\<forall>ev \<in> set evs. \<exists>a. ev = VAttributeEnter a"
  then show "fst (run (withProps context (templateBodyVisitor isRegExp regexpTest context)) evs) = [''class'']"
    using run_from_withProps_attributes [of evs "context" isRegExp regexpTest "[''class'']"]
    by (simp add: run_def)
qed

theorem C8_prop_collector_witness:
  "\<not> allowPropsOf \<lparr>options = [\<lparr>classAttrNames = None, allowConditional = None, allowProps = Some False\<rparr>],
        hasDefineTemplateBodyVisitor = True\<rparr>
   \<and> withProps \<lparr>options = [\<lparr>classAttrNames = None, allowConditional = None, allowProps = Some False\<rparr>],
        hasDefineTemplateBodyVisitor = True\<rparr> emptyListener = emptyListener
   \<and> fst (run (withProps \<lparr>options = [\<lparr>classAttrNames = None, allowConditional = None, allowProps = Some False\<rparr>],
                   hasDefineTemplateBodyVisitor = True\<rparr>
                 (templateBodyVisitor (\<lambda>s. False) (\<lambda>r s. False)
                    \<lparr>options = [\<lparr>classAttrNames = None, allowConditional = None, allowProps = Some False\<rparr>],
                      hasDefineTemplateBodyVisitor = True\<rparr>))
               [DefinePropsEnter [\<lparr>propName = Some ''active''\<rparr>]]) = [''class'']
   \<and> allowPropsOf \<lparr>options = [\<lparr>classAttrNames = None, allowConditional = None, allowProps = Some True\<rparr>],
        hasDefineTemplateBodyVisitor = True\<rparr>
   \<and> set (fst (run (withProps \<lparr>options = [\<lparr>classAttrNames = None, allowConditional = None, allowProps = Some True\<rparr>],
                   hasDefineTemplateBodyVisitor = True\<rparr>
                 (templateBodyVisitor (\<lambda>s. False) (\<lambda>r s. False)
                    \<lparr>options = [\<lparr>classAttrNames = None, allowConditional = None, allowProps = Some True\<rparr>],
                      hasDefineTemplateBodyVisitor = True\<rparr>))
               [DefinePropsEnter [\<lparr>propName = Some ''active''\<rparr>, \<lparr>propName = None\<rparr>],
                VueObjectEnter [\<lparr>propName = Some ''size''\<rparr>]]))
       = {''class'', ''active'', ''size''}
   \<and> fst (run (withProps \<lparr>options = [\<lparr>classAttrNames = None, allowConditional = None, allowProps = Some True\<rparr>],
                   hasDefineTemplateBodyVisitor = True\<rparr>
                 (templateBodyVisitor (\<lambda>s. False) (\<lambda>r s. False)
                    \<lparr>options = [\<lparr>classAttrNames = None, allowConditional = None, allowProps = Some True\<rparr>],
                      hasDefineTemplateBodyVisitor = True\<rparr>))
               [VAttributeEnter (VAttribute ''class'' None)]) = [''class'']"
proof -
  let ?off = "\<lparr>options = [\<lparr>classAttrNames = None, allowConditional = None, allowProps = Some False\<rparr>],
        hasDefineTemplateBodyVisitor = True\<rparr>"
  let ?on = "\<lparr>options = [\<lparr>classAttrNames = None, allowConditional = None, allowProps = Some True\<rparr>],
        hasDefineTemplateBodyVisitor = True\<rparr>"
  have off: "\<not> allowPropsOf ?off"
    by (simp add: allowPropsOf_def options0_def)
  have on: "allowPropsOf ?on"
    by (simp add: allowPropsOf_def options0_def)
  have decl: "{''class''} \<union> (\<Union>ev \<in> set [DefinePropsEnter [\<lparr>propName = Some ''active''\<rparr>, \<lparr>propName = None\<rparr>],
                VueObjectEnter [\<lparr>propName = Some ''size''\<rparr>]]. declaredPropNames ev)
              = {''class'', ''active'', ''size''}"
    by auto
  have attrs: "\<forall>ev \<in> set [VAttributeEnter (VAttribute ''class'' None)]. \<exists>a. ev = VAttributeEnter a"
    by simp
  note a = C8_prop_collector [of ?off emptyListener "\<lambda>s. False" "\<lambda>r s. False"
        "[DefinePropsEnter [\<lparr>propName = Some ''active''\<rparr>]]"]
  note b = C8_prop_collector [of ?on emptyListener "\<lambda>s. False" "\<lambda>r s. False"
        "[DefinePropsEnter [\<lparr>propName = Some ''active''\<rparr>, \<lparr>propName = None\<rparr>],
          VueObjectEnter [\<lparr>propName = Some ''size''\<rparr>]]"]
  note c = C8_prop_collector [of ?on emptyListener "\<lambda>s. False" "\<lambda>r s. False"
        "[VAttributeEnter (VAttribute ''class'' None)]"]
  note a1 = mp [OF conjunct1 [OF a] off]
  note b1 = mp [OF conjunct1 [OF conjunct2 [OF b]] on, unfolded decl]
  note c1 = mp [OF conjunct2 [OF conjunct2 [OF c]] attrs]
  show ?thesis
    by (rule conjI [OF off conjI [OF conjunct1 [OF a1] conjI [OF conjunct2 [OF a1]
          conjI [OF on conjI [OF b1 c1]]]]])
qed

lemma reportDynamicInObject_static_keys:
  "\<forall>p \<in> set properties. staticKeyProperty p \<Longrightarrow>
   reportDynamicInObject ac properties allowedProps = []"
proof (induction properties)
  case Nil
  show ?case by simp
next
  case (Cons p properties)
  then show ?case
    by (cases p) auto
qed

text \<open>
  C4: an object literal all of whose properties have a static key (shorthand, plain
  identifier key or string-literal key; no spread, no computed key, no method) gives no
  report, whatever the allowed names and whatever the values of the properties.
\<close>

theorem C4_static_keys_never_reported:
  "\<forall>p \<in> set properties. staticKeyProperty p \<Longrightarrow>
   reportDynamicInExpression ac (Some (ObjectExpression l properties)) allowedProps = []"
  using reportDynamicInObject_static_keys by simp


theorem C4_static_keys_never_reported_witness:
  "staticKeyProperty (Property ((1, 2), (1, 16)) (Identifier ((1, 2), (1, 8)) ''active'')
                    (Identifier ((1, 10), (1, 16)) ''isOpen'') False False False)
   \<and> staticKeyProperty (Property ((1, 18), (1, 32)) (Literal ((1, 18), (1, 24)) (LString ''wide''))
                    (OtherExpression ((1, 26), (1, 32)) ''CallExpression'' [Identifier ((1, 26), (1, 30)) ''calc''])
                    False False False)
   \<and> staticKeyProperty (Property ((1, 34), (1, 37)) (Identifier ((1, 34), (1, 37)) ''big'')
                    (Identifier ((1, 34), (1, 37)) ''big'') False False True)
   \<and> reportDynamicInExpression True
        (Some (ObjectExpression ((1, 0), (1, 39))
           [Property ((1, 2), (1, 16)) (Identifier ((1, 2), (1, 8)) ''active'')
                    (Identifier ((1, 10), (1, 16)) ''isOpen'') False False False,
            Property ((1, 18), (1, 32)) (Literal ((1, 18), (1, 24)) (LString ''wide''))
                    (OtherExpression ((1, 26), (1, 32)) ''CallExpression'' [Identifier ((1, 26), (1, 30)) ''calc''])
                    False False False,
            Property ((1, 34), (1, 37)) (Identifier ((1, 34), (1, 37)) ''big'')
                    (Identifier ((1, 34), (1, 37)) ''big'') False False True]))
        [''class''] = []"
proof -
  have h: "\<forall>p \<in> set [Property ((1, 2), (1, 16)) (Identifier ((1, 2), (1, 8)) ''active'')
                    (Identifier ((1, 10), (1, 16)) ''isOpen'') False False False,
                 Property ((1, 18), (1, 32)) (Literal ((1, 18), (1, 24)) (LString ''wide''))
                    (OtherExpression ((1, 26), (1, 32)) ''CallExpression'' [Identifier ((1, 26), (1, 30)) ''calc''])
                    False False False,
                 Property ((1, 34), (1, 37)) (Identifier ((1, 34), (1, 37)) ''big'')
                    (Identifier ((1, 34), (1, 37)) ''big'') False False True].
      staticKeyProperty p"
    by simp
  have k: "staticKeyProperty (Property ((1, 2), (1, 16)) (Identifier ((1, 2), (1, 8)) ''active'')
                    (Identifier ((1, 10), (1, 16)) ''isOpen'') False False False)
   \<and> staticKeyProperty (Property ((1, 18), (1, 32)) (Literal ((1, 18), (1, 24)) (LString ''wide''))
                    (OtherExpression ((1, 26), (1, 32)) ''CallExpression'' [Identifier ((1, 26), (1, 30)) ''calc''])
                    False False False)
   \<and> staticKeyProperty (Property ((1, 34), (1, 37)) (Identifier ((1, 34), (1, 37)) ''big'')
                    (Identifier ((1, 34), (1, 37)) ''big'') False False True)"
    by simp
  show ?thesis
    using k C4_static_keys_never_reported [OF h, of True "((1, 0), (1, 39))" "[''class'']"]
    by (simp only: conj_assoc simp_thms)
qed

section \<open>Order and completeness of the reports\<close>

lemma subseq_report_Cons: "subseq (map node (report n)) (n # ns)"
  by (simp add: report_def)

lemma subseq_append_both:
  "subseq xs xs' \<Longrightarrow> subseq ys ys' \<Longrightarrow> subseq (xs @ ys) (xs' @ ys')"
  by (rule list_emb_append_mono)

lemma subseq_skip_prefix: "subseq xs ys \<Longrightarrow> subseq xs (zs @ ys)"
  by (rule list_emb_append2)

lemma subseq_skip_head: "subseq xs ys \<Longrightarrow> subseq xs (y # ys)"
  by (rule list_emb_Cons)

lemma subseq_report_recursionOrder: "subseq (map node (report (ExpressionNode e))) (recursionOrder e)"
  by (cases e) (simp_all add: report_def)

lemma reports_follow_recursionOrder:
  "subseq (map node (reportDynamicInSpread ac spread allowedProps)) (recursionOrderSpread spread)"
  "subseq (map node (reportDynamicInObject ac properties allowedProps))
     (concat (map recursionOrderProperty properties))"
  "subseq (map node (reportDynamicInArray ac elements allowedProps))
     (concat (map recursionOrderElement elements))"
  "subseq (map node (reportDynamicInConditional ac consequent alternate allowedProps))
     (recursionOrder alternate @ recursionOrder consequent)"
  "subseq (map node (reportDynamicInExpression ac expression allowedProps))
     (case expression of None \<Rightarrow> [] | Some e \<Rightarrow> recursionOrder e)"
proof (induction ac spread allowedProps and ac properties allowedProps and ac elements allowedProps
    and ac consequent alternate allowedProps and ac expression allowedProps
    rule: reportDynamicInSpread_reportDynamicInObject_reportDynamicInArray_reportDynamicInConditional_reportDynamicInExpression.induct)
  case (6 ac l key val isComputed isMethod isShorthand rest allowedProps)
  have "subseq (map node (if isShorthand then []
      else if isComputed \<or> isMethod
        then report (PropertyNode (Property l key val isComputed isMethod isShorthand))
      else if isIdentifier key then []
      else if isStringLiteral key then []
      else if isIdentifier val then []
      else reportDynamicInExpression ac (Some val) allowedProps))
     (recursionOrderProperty (Property l key val isComputed isMethod isShorthand))"
    using 6(1) by (auto simp: report_def intro: subseq_skip_prefix [of _ _ "_ # _", simplified])
  then show ?case
    using 6(2) unfolding reportDynamicInObject.simps map_append list.map concat.simps
    by (rule subseq_append_both)
next
  case (11 ac consequent alternate allowedProps)
  then show ?case by (simp add: subseq_append_both)
qed (auto simp: report_def intro: subseq_append_both subseq_skip_head subseq_skip_prefix)


text \<open>
  C3 fails as stated: for \<open>cond ? a : b\<close> with conditionals allowed and neither \<open>a\<close> nor
  \<open>b\<close> allowed, the report at the alternate \<open>b\<close> comes before the report at the consequent
  \<open>a\<close>, so the reports are not in the positional order of the sub-expressions.
\<close>

theorem C3_counterexample:
  "reportDynamicInExpression True
     (Some (ConditionalExpression ((1, 0), (1, 13))
              (Identifier ((1, 0), (1, 4)) ''cond'')
              (Identifier ((1, 7), (1, 8)) ''a'')
              (Identifier ((1, 11), (1, 12)) ''b'')))
     [''class'']
   = [\<lparr>node = ExpressionNode (Identifier ((1, 11), (1, 12)) ''b''),
        loc = ((1, 11), (1, 12)), messageId = ''dynamic''\<rparr>,
      \<lparr>node = ExpressionNode (Identifier ((1, 7), (1, 8)) ''a''),
        loc = ((1, 7), (1, 8)), messageId = ''dynamic''\<rparr>]
   \<and> \<not> subseq
     (map node (reportDynamicInExpression True
        (Some (ConditionalExpression ((1, 0), (1, 13))
                 (Identifier ((1, 0), (1, 4)) ''cond'')
                 (Identifier ((1, 7), (1, 8)) ''a'')
                 (Identifier ((1, 11), (1, 12)) ''b'')))
        [''class'']))
     (positionalOrder
        (ConditionalExpression ((1, 0), (1, 13))
           (Identifier ((1, 0), (1, 4)) ''cond'')
           (Identifier ((1, 7), (1, 8)) ''a'')
           (Identifier ((1, 11), (1, 12)) ''b'')))"
  by (simp add: report_def list_emb_code)

text \<open>
  C3, amended: the reports of a tree come in the order of a depth-first traversal in which
  the properties of an object and the elements of an array are taken from left to right and
  the alternate of a conditional before its consequent; with conditionals allowed, the
  reports arising from the alternate precede those arising from the consequent.
\<close>

theorem C3_reports_follow_recursion_order:
  "subseq (map node (reportDynamicInExpression ac (Some e) allowedProps)) (recursionOrder e)
   \<and> reportDynamicInExpression True (Some (ConditionalExpression l test consequent alternate)) allowedProps
     = reportDynamicInExpression True (Some alternate) allowedProps
       @ reportDynamicInExpression True (Some consequent) allowedProps"
  using reports_follow_recursionOrder(5) [of ac "Some e" allowedProps] by simp

lemma unknown_identifiers_reported:
  "filter (unknownIdentifierNode allowedProps) (map node (reportDynamicInSpread ac spread allowedProps))
     = map ExpressionNode (filter (unknownIdentifier allowedProps) (reachedInSpread True ac spread))"
  "filter (unknownIdentifierNode allowedProps) (map node (reportDynamicInObject ac properties allowedProps))
     = map ExpressionNode (filter (unknownIdentifier allowedProps) (reachedInObject True ac properties))"
  "filter (unknownIdentifierNode allowedProps) (map node (reportDynamicInArray ac elements allowedProps))
     = map ExpressionNode (filter (unknownIdentifier allowedProps) (reachedInArray True ac elements))"
  "filter (unknownIdentifierNode allowedProps)
       (map node (reportDynamicInConditional ac consequent alternate allowedProps))
     = map ExpressionNode
         (filter (unknownIdentifier allowedProps) (reachedInConditional True ac consequent alternate))"
  "filter (unknownIdentifierNode allowedProps) (map node (reportDynamicInExpression ac expression allowedProps))
     = (case expression of None \<Rightarrow> []
        | Some e \<Rightarrow> map ExpressionNode
            (filter (unknownIdentifier allowedProps) (reachedInExpression True ac e)))"
  by (induction ac spread allowedProps and ac properties allowedProps and ac elements allowedProps
    and ac consequent alternate allowedProps and ac expression allowedProps
    rule: reportDynamicInSpread_reportDynamicInObject_reportDynamicInArray_reportDynamicInConditional_reportDynamicInExpression.induct)
    (simp_all add: report_def)

lemma count_list_filter_keep: "P x \<Longrightarrow> count_list (filter P xs) x = count_list xs x"
  by (induction xs) auto

lemma count_list_map_ExpressionNode: "count_list (map ExpressionNode xs) (ExpressionNode x) = count_list xs x"
  by (induction xs) auto

text \<open>
  C1 fails as stated: in \<open>{ 1: dyn }\<close> the key is a number, neither computed nor an
  identifier nor a string literal, so the value \<open>dyn\<close> is an object value under a dynamic
  key that the rules for values reach; its name is not allowed, and yet nothing is
  reported.
\<close>

theorem C1_counterexample:
  "Identifier ((1, 5), (1, 8)) ''dyn''
     \<in> set (reachedInExpression False True
          (ObjectExpression ((1, 0), (1, 10))
             [Property ((1, 2), (1, 8)) (Literal ((1, 2), (1, 3)) (LNumber 1))
                (Identifier ((1, 5), (1, 8)) ''dyn'') False False False]))
   \<and> unknownIdentifier [''class''] (Identifier ((1, 5), (1, 8)) ''dyn'')
   \<and> reportDynamicInExpression True
        (Some (ObjectExpression ((1, 0), (1, 10))
           [Property ((1, 2), (1, 8)) (Literal ((1, 2), (1, 3)) (LNumber 1))
              (Identifier ((1, 5), (1, 8)) ''dyn'') False False False]))
        [''class''] = []"
  by simp

text \<open>
  C1, amended: leaving out the identifiers that are themselves the value of a property
  under a dynamic key, which the object loop skips without a report, the reports at
  identifiers whose name is not allowed are, one for one and in the same order, the
  occurrences of such identifiers that the recursion reaches, at whatever depth in arrays,
  objects, spreads and the branches of conditionals they stand: such an identifier is
  reported as many times as it is reached, once for each occurrence.
\<close>

theorem C1_unknown_identifiers_reported_once:
  "filter (unknownIdentifierNode allowedProps) (map node (reportDynamicInExpression ac (Some e) allowedProps))
     = map ExpressionNode (filter (unknownIdentifier allowedProps) (reachedInExpression True ac e))
   \<and> (unknownIdentifier allowedProps x \<longrightarrow>
        count_list (map node (reportDynamicInExpression ac (Some e) allowedProps)) (ExpressionNode x)
          = count_list (reachedInExpression True ac e) x)"
proof (intro conjI impI)
  show eq: "filter (unknownIdentifierNode allowedProps) (map node (reportDynamicInExpression ac (Some e) allowedProps))
     = map ExpressionNode (filter (unknownIdentifier allowedProps) (reachedInExpression True ac e))"
    using unknown_identifiers_reported(5) [of allowedProps ac "Some e"] by simp
  assume x: "unknownIdentifier allowedProps x"
  then have "unknownIdentifierNode allowedProps (ExpressionNode x)"
    by simp
  then have "count_list (map node (reportDynamicInExpression ac (Some e) allowedProps)) (ExpressionNode x)
      = count_list (filter (unknownIdentifierNode allowedProps)
          (map node (reportDynamicInExpression ac (Some e) allowedProps))) (ExpressionNode x)"
    by (simp only: count_list_filter_keep)
  also have "\<dots> = count_list (filter (unknownIdentifier allowedProps) (reachedInExpression True ac e)) x"
    by (simp only: eq count_list_map_ExpressionNode)
  also have "\<dots> = count_list (reachedInExpression True ac e) x"
    using x by (simp only: count_list_filter_keep)
  finally show "count_list (map node (reportDynamicInExpression ac (Some e) allowedProps)) (ExpressionNode x)
          = count_list (reachedInExpression True ac e) x" .
qed

theorem C1_unknown_identifiers_reported_once_witness:
  "unknownIdentifier [''class'', ''active''] (Identifier ((1, 13), (1, 23)) ''dynamicVar'')
   \<and> count_list
       (map node (reportDynamicInExpression True
          (Some (ArrayExpression ((1, 0), (1, 33))
             [ExpressionElement (ObjectExpression ((1, 1), (1, 32))
                [Property ((1, 3), (1, 30)) (Literal ((1, 3), (1, 4)) (LNumber 1))
                   (ConditionalExpression ((1, 6), (1, 29))
                      (Identifier ((1, 6), (1, 10)) ''cond'')
                      (Identifier ((1, 13), (1, 23)) ''dynamicVar'')
                      (Literal ((1, 26), (1, 29)) (LString ''b'')))
                   False False False])]))
          [''class'', ''active'']))
       (ExpressionNode (Identifier ((1, 13), (1, 23)) ''dynamicVar'')) = 1"
  using C1_unknown_identifiers_reported_once [of "[''class'', ''active'']" True
      "ArrayExpression ((1, 0), (1, 33))
             [ExpressionElement (ObjectExpression ((1, 1), (1, 32))
                [Property ((1, 3), (1, 30)) (Literal ((1, 3), (1, 4)) (LNumber 1))
                   (ConditionalExpression ((1, 6), (1, 29))
                      (Identifier ((1, 6), (1, 10)) ''cond'')
                      (Identifier ((1, 13), (1, 23)) ''dynamicVar'')
                      (Literal ((1, 26), (1, 29)) (LString ''b'')))
                   False False False])]"
      "Identifier ((1, 13), (1, 23)) ''dynamicVar''"]
  by (simp add: report_def)

section \<open>Termination\<close>





end
